theory Spec2Isabelle
  imports Main "HOL-Library.Sublist"
begin

section \<open>The booking sample (main.go)\<close>

text \<open>
  The program wires two tool handlers, \<open>bookHotel\<close> and \<open>bookFlight\<close>, into an agent
  framework and runs three prompts through a coordinator agent. Everything the program
  does beyond computing values is explicit here: the two output streams, the requests
  handed to the runner and the number of stream items pulled are fields of a
  \<open>world\<close> that every function takes and returns; \<open>os.Exit\<close>, \<open>log.Fatal\<close>
  and run-time panics are values of \<open>outcome\<close>. A panic ends the process; the trace
  the Go runtime then writes to standard error is not part of the model. Go strings are
  byte sequences and are modelled as \<open>string\<close>; a Go \<open>error\<close> is modelled by the
  text its \<open>Error()\<close> method returns, which is what \<open>%v\<close> and \<open>%w\<close> print.
\<close>

subsection \<open>Process state and outcomes\<close>

type_synonym error = string

datatype panic = NilDereference | IndexOutOfRange nat nat

datatype 'a outcome = Return 'a | Exit nat | Panic panic

subsection \<open>Argument and result structs of the handlers\<close>

record bookHotelArg =
  Location :: string
  Date :: string

record bookHotelResult =
  Status :: string
  Report :: string
  ErrorMessage :: string

record bookFlightArg =
  Origin :: string
  Destination :: string
  Date :: string

record bookFlightResult =
  Status :: string
  Report :: string
  ErrorMessage :: string

subsection \<open>The agent configuration\<close>

datatype handler = BookHotel | BookFlight

datatype tool = FunctionTool (tool_Name: string) (tool_Description: string) (tool_handler: handler)

datatype model = GeminiModel (model_name: string) (APIKey: string)

datatype agent = LLMAgent
  (Name: string)
  (Description: string)
  (Model: model)
  (Instruction: string)
  (Tools: "tool list")
  (SubAgents: "agent list")

datatype runner = Runner (AppName: string) (Agent: agent)

subsection \<open>Events of a run\<close>

text \<open>
  \<open>genai.Part\<close>, \<open>genai.Content\<close> and \<open>session.Event\<close>, with the fields the program
  reads or sets. \<open>Content.Parts\<close> is a slice of pointers and \<open>Event.Content\<close> is a
  pointer: a nil pointer is \<open>None\<close>.
\<close>

record part =
  Text :: string

record content =
  Parts :: "part option list"
  Role :: string

record event =
  Content :: "content option"

datatype streamingMode = StreamingModeNone | StreamingModeSSE

record request =
  req_runner :: runner
  userID :: string
  sessionID :: string
  msg :: content
  cfg :: streamingMode

record world =
  stdout :: string
  stderr :: string
  submitted :: "request list"
  pulled :: nat

definition init_world :: world where
  "init_world = \<lparr>stdout = [], stderr = [], submitted = [], pulled = 0\<rparr>"

text \<open>
  What the runner does while its event sequence is ranged over: before it yields the
  next pair \<open>(event, err)\<close> the framework may invoke the registered handlers. The
  handler's \<open>tool.Context\<close> is the type parameter \<open>'c\<close>. In a yielded pair either
  component may be nil.
\<close>

datatype 'c step =
  CallHotel 'c bookHotelArg
| CallFlight 'c bookFlightArg
| Yield "event option" "error option"

subsection \<open>Formatted output\<close>

definition fmt_Printf :: "string \<Rightarrow> world \<Rightarrow> world" where
  "fmt_Printf s w = w\<lparr>stdout := stdout w @ s\<rparr>"

definition fmt_Fprintf_Stderr :: "string \<Rightarrow> world \<Rightarrow> world" where
  "fmt_Fprintf_Stderr s w = w\<lparr>stderr := stderr w @ s\<rparr>"

text \<open>The verb \<open>%v\<close> on a struct of strings: the fields in braces, separated by a space.\<close>

definition fmt_v_bookHotelArg :: "bookHotelArg \<Rightarrow> string" where
  "fmt_v_bookHotelArg arg = ''{'' @ Location arg @ '' '' @ bookHotelArg.Date arg @ ''}''"

definition fmt_v_bookFlightArg :: "bookFlightArg \<Rightarrow> string" where
  "fmt_v_bookFlightArg arg =
     ''{'' @ Origin arg @ '' '' @ Destination arg @ '' '' @ bookFlightArg.Date arg @ ''}''"

subsection \<open>The two handlers\<close>

definition bookHotel :: "'c \<Rightarrow> bookHotelArg \<Rightarrow> world \<Rightarrow> bookHotelResult \<times> world" where
  "bookHotel c arg w =
     (let confirmation = ''CONF_HOTEL_98765'';
          w1 = fmt_Printf (fmt_v_bookHotelArg arg) w
      in (\<lparr>bookHotelResult.Status = ''success'',
           bookHotelResult.Report =
             ''Hotel booked in '' @ Location arg @ '' on '' @ bookHotelArg.Date arg
               @ ''. Confirmation: '' @ confirmation,
           bookHotelResult.ErrorMessage = ''''\<rparr>, w1))"

definition bookFlight :: "'c \<Rightarrow> bookFlightArg \<Rightarrow> world \<Rightarrow> bookFlightResult \<times> world" where
  "bookFlight c arg w =
     (let confirmation = ''CONF_FLIGHT_12345'';
          w1 = fmt_Printf (fmt_v_bookFlightArg arg) w
      in (\<lparr>bookFlightResult.Status = ''success'',
           bookFlightResult.Report =
             ''Flight booked from '' @ Origin arg @ '' to '' @ Destination arg @ '' on ''
               @ bookFlightArg.Date arg @ ''. Confirmation: '' @ confirmation,
           bookFlightResult.ErrorMessage = ''''\<rparr>, w1))"

subsection \<open>What the program takes from outside\<close>

text \<open>
  The process image: \<open>os.Args\<close> and the environment variables. \<open>os.Getenv\<close> returns
  the empty string for a variable that is not set.
\<close>

type_synonym environ = "string \<rightharpoonup> string"

record proc =
  Args :: "string list"
  Environ :: environ

definition os_Getenv :: "environ \<Rightarrow> string \<Rightarrow> string" where
  "os_Getenv env k = (case env k of None \<Rightarrow> [] | Some v \<Rightarrow> v)"

text \<open>
  The imported packages are parameters of the program. Each constructor of the framework
  either fails with an error or succeeds, and on success the value it returns is the
  configuration it was given; \<open>godotenv.Load\<close> either fails or yields the environment with
  the variables of the \<open>.env\<close> file added; \<open>SessionService.Create\<close> yields the new
  session's ID; \<open>Runner.Run\<close> answers a request, given the requests made before it, with
  the finite sequence of steps of that run; \<open>log_header\<close> is the date and time the
  standard logger puts in front of the one message the process can log.
\<close>

record 'c framework =
  godotenv_Load :: "environ \<Rightarrow> error + environ"
  gemini_NewModel :: "string \<Rightarrow> string \<Rightarrow> error option"
  functiontool_New :: "tool \<Rightarrow> error option"
  llmagent_New :: "agent \<Rightarrow> error option"
  runner_New :: "runner \<Rightarrow> error option"
  session_Create :: "string \<Rightarrow> string \<Rightarrow> error + string"
  runner_Run :: "request list \<Rightarrow> request \<Rightarrow> 'c step list"
  log_header :: string

text \<open>
  \<open>log.Fatal\<close> and \<open>log.Fatalf\<close>: one line on standard error (the header, the message,
  and a line break unless the message ends in one), then \<open>os.Exit(1)\<close>.
\<close>

definition log_Output :: "string \<Rightarrow> string \<Rightarrow> world \<Rightarrow> world" where
  "log_Output header s w =
     fmt_Fprintf_Stderr
       (header @ s @ (if s = [] \<or> last s \<noteq> CHR ''\<newline>'' then ''\<newline>'' else [])) w"

definition log_Fatal :: "'c framework \<Rightarrow> string \<Rightarrow> world \<Rightarrow> 'a outcome \<times> world" where
  "log_Fatal fw s w = (Exit 1, log_Output (log_header fw) s w)"

definition and_then ::
  "'a outcome \<times> world \<Rightarrow> ('a \<Rightarrow> world \<Rightarrow> 'b outcome \<times> world) \<Rightarrow> 'b outcome \<times> world" where
  "and_then r k =
     (case r of
        (Return x, w) \<Rightarrow> k x w
      | (Exit n, w) \<Rightarrow> (Exit n, w)
      | (Panic p, w) \<Rightarrow> (Panic p, w))"

subsection \<open>run: one prompt through the runner\<close>

definition genai_RoleUser :: string where
  "genai_RoleUser = ''user''"

definition genai_NewContentFromText :: "string \<Rightarrow> string \<Rightarrow> content" where
  "genai_NewContentFromText text role = \<lparr>Parts = [Some \<lparr>Text = text\<rparr>], Role = role\<rparr>"

text \<open>
  The body of \<open>for event, err := range events\<close> for one yielded pair; \<open>Return ()\<close>
  is the end of the body, after which the loop asks for the next pair.
  \<open>event.Content.Parts[0].Text\<close> dereferences the event, its content and the first
  part, and indexes the slice.
\<close>

definition loop_body :: "'c framework \<Rightarrow> event option \<Rightarrow> error option \<Rightarrow> world \<Rightarrow> unit outcome \<times> world" where
  "loop_body fw ev err w =
     (case err of
        Some e \<Rightarrow> log_Fatal fw (''ERROR during agent execution: '' @ e) w
      | None \<Rightarrow>
         (case ev of
            None \<Rightarrow> (Panic NilDereference, w)
          | Some e \<Rightarrow>
             (case Content e of
                None \<Rightarrow> (Panic NilDereference, w)
              | Some c \<Rightarrow>
                 (case Parts c of
                    [] \<Rightarrow> (Panic (IndexOutOfRange 0 0), w)
                  | p0 # _ \<Rightarrow>
                     (case p0 of
                        None \<Rightarrow> (Panic NilDereference, w)
                      | Some p \<Rightarrow>
                         if Text p \<noteq> ''''
                         then (Return (), fmt_Printf (''Agent Response: '' @ Text p @ ''\<newline>'') w)
                         else (Return (), w))))))"

text \<open>
  The loop over the steps of the run. A handler invoked by the framework acts on the
  world; pulling a pair from the sequence is counted in \<open>pulled\<close>.
\<close>

fun range_events :: "'c framework \<Rightarrow> 'c step list \<Rightarrow> world \<Rightarrow> unit outcome \<times> world" where
  "range_events fw [] w = (Return (), w)"
| "range_events fw (CallHotel c arg # rest) w = range_events fw rest (snd (bookHotel c arg w))"
| "range_events fw (CallFlight c arg # rest) w = range_events fw rest (snd (bookFlight c arg w))"
| "range_events fw (Yield ev err # rest) w =
     and_then (loop_body fw ev err (w\<lparr>pulled := pulled w + 1\<rparr>)) (\<lambda>_. range_events fw rest)"

text \<open>The arguments \<open>run\<close> passes to \<open>r.Run\<close>.\<close>

definition run_request :: "runner \<Rightarrow> string \<Rightarrow> string \<Rightarrow> request" where
  "run_request r sid prompt =
     \<lparr>req_runner = r, userID = ''user1234'', sessionID = sid,
      msg = genai_NewContentFromText prompt genai_RoleUser,
      cfg = StreamingModeNone\<rparr>"

definition run :: "'c framework \<Rightarrow> runner \<Rightarrow> string \<Rightarrow> string \<Rightarrow> world \<Rightarrow> unit outcome \<times> world" where
  "run fw r sid prompt w =
     (let w1 = fmt_Printf (''\<newline>> '' @ prompt @ ''\<newline>'') w;
          rq = run_request r sid prompt;
          events = runner_Run fw (submitted w1) rq;
          w2 = w1\<lparr>submitted := submitted w1 @ [rq]\<rparr>
      in range_events fw events w2)"

subsection \<open>runAgent and main\<close>

definition hotelTool :: tool where
  "hotelTool = FunctionTool ''bookHotel''
     ''Use this function to book a hotel. Requires location and date.'' BookHotel"

definition flightTool :: tool where
  "flightTool = FunctionTool ''bookFlight''
     ''Use this function to book a flight. Requires origin, destination, and date.'' BookFlight"

definition bookingAgent :: "model \<Rightarrow> agent" where
  "bookingAgent m = LLMAgent ''Booker''
     ''Handles flight and hotel bookings. Use your tools for any booking request.''
     m '''' [hotelTool, flightTool] []"

definition infoAgent :: "model \<Rightarrow> agent" where
  "infoAgent m = LLMAgent ''Info''
     ''Provides general information and answers questions.'' m '''' [] []"

definition coordinator :: "model \<Rightarrow> agent" where
  "coordinator m = LLMAgent ''Coordinator'' ''Main coordinator.'' m
     ''You are an assistant. Delegate booking tasks to Booker and info requests to Info.''
     [] [bookingAgent m, infoAgent m]"

text \<open>
  \<open>runAgent\<close> is given in four parts, the last part of the source first: from the
  runner to the three prompts (lines 147 to 169), the three agents (lines 117 to 145),
  the two tools (lines 92 to 112), and the environment and the model (lines 74 to 89).
  A part ends by returning an error, by \<open>log.Fatal\<close>, or by going on with the part
  that follows it in the source.
\<close>

definition runAgent_session :: "'c framework \<Rightarrow> agent \<Rightarrow> world \<Rightarrow> error option outcome \<times> world" where
  "runAgent_session fw root w =
    (let r = Runner ''booking_planner'' root in
     case runner_New fw r of
       Some err \<Rightarrow> log_Fatal fw err w
     | None \<Rightarrow>
    (case session_Create fw ''booking_planner'' ''user1234'' of
       Inl err \<Rightarrow> log_Fatal fw err w
     | Inr sid \<Rightarrow>
    and_then (run fw r sid ''i want to visit in london?'' w) (\<lambda>_ w.
    and_then (run fw r sid ''on 2025-11-14'' w) (\<lambda>_ w.
    and_then (run fw r sid ''also book a hotel for me '' w) (\<lambda>_ w.
    (Return None, w))))))"

definition runAgent_agents :: "'c framework \<Rightarrow> model \<Rightarrow> world \<Rightarrow> error option outcome \<times> world" where
  "runAgent_agents fw model w =
    (case llmagent_New fw (bookingAgent model) of
       Some err \<Rightarrow> (Return (Some (''creating booking agent: '' @ err)), w)
     | None \<Rightarrow>
    (case llmagent_New fw (infoAgent model) of
       Some err \<Rightarrow> (Return (Some (''creating info agent: '' @ err)), w)
     | None \<Rightarrow>
    (case llmagent_New fw (coordinator model) of
       Some err \<Rightarrow> (Return (Some (''creating coordinator agent: '' @ err)), w)
     | None \<Rightarrow> runAgent_session fw (coordinator model) w)))"

definition runAgent_tools :: "'c framework \<Rightarrow> model \<Rightarrow> world \<Rightarrow> error option outcome \<times> world" where
  "runAgent_tools fw model w =
    (case functiontool_New fw hotelTool of
       Some err \<Rightarrow> (Return (Some (''creating hotel tool: '' @ err)), w)
     | None \<Rightarrow>
    (case functiontool_New fw flightTool of
       Some err \<Rightarrow> (Return (Some (''creating flight tool: '' @ err)), w)
     | None \<Rightarrow> runAgent_agents fw model w))"

definition runAgent :: "'c framework \<Rightarrow> proc \<Rightarrow> world \<Rightarrow> error option outcome \<times> world" where
  "runAgent fw p w =
    (case godotenv_Load fw (Environ p) of
       Inl err \<Rightarrow> (Return (Some (''loading .env file: '' @ err)), w)
     | Inr env \<Rightarrow>
    (let key = os_Getenv env ''API_KEY'' in
     if key = '''' then (Return (Some ''API_KEY environment variable is not set''), w)
     else
    (case gemini_NewModel fw ''gemini-2.5-flash'' key of
       Some err \<Rightarrow> (Return (Some (''creating Gemini model: '' @ err)), w)
     | None \<Rightarrow> runAgent_tools fw (GeminiModel ''gemini-2.5-flash'' key) w)))"

text \<open>
  \<open>main\<close> starts from the empty world. Returning from \<open>main\<close> is \<open>Return ()\<close>, which
  ends the process with status 0.
\<close>

definition main :: "'c framework \<Rightarrow> proc \<Rightarrow> unit outcome \<times> world" where
  "main fw p =
     (case runAgent fw p init_world of
        (Return (Some err), w) \<Rightarrow> (Exit 1, fmt_Fprintf_Stderr (''Error: '' @ err @ ''\<newline>'') w)
      | (Return None, w) \<Rightarrow> (Return (), w)
      | (Exit n, w) \<Rightarrow> (Exit n, w)
      | (Panic r, w) \<Rightarrow> (Panic r, w))"

subsection \<open>Notions used to state the properties\<close>

text \<open>
  The first content part of a yielded event, \<open>None\<close> where the program's access
  \<open>event.Content.Parts[0]\<close> fails or finds a nil part.
\<close>

definition first_part :: "event option \<Rightarrow> part option" where
  "first_part ev =
     (case ev of
        None \<Rightarrow> None
      | Some e \<Rightarrow>
         (case Content e of
            None \<Rightarrow> None
          | Some c \<Rightarrow> (case Parts c of [] \<Rightarrow> None | p0 # _ \<Rightarrow> p0)))"

text \<open>A step after which the loop of \<open>run\<close> goes on to the next one.\<close>

fun goes_on :: "'c step \<Rightarrow> bool" where
  "goes_on (CallHotel c arg) = True"
| "goes_on (CallFlight c arg) = True"
| "goes_on (Yield ev err) = (err = None \<and> first_part ev \<noteq> None)"

text \<open>What such a step writes to standard output.\<close>

fun step_output :: "'c step \<Rightarrow> string" where
  "step_output (CallHotel c arg) = fmt_v_bookHotelArg arg"
| "step_output (CallFlight c arg) = fmt_v_bookFlightArg arg"
| "step_output (Yield ev err) =
     (case first_part ev of
        None \<Rightarrow> []
      | Some p \<Rightarrow> if Text p \<noteq> '''' then ''Agent Response: '' @ Text p @ ''\<newline>'' else [])"

fun is_Yield :: "'c step \<Rightarrow> bool" where
  "is_Yield (Yield ev err) = True"
| "is_Yield _ = False"

definition yields :: "'c step list \<Rightarrow> nat" where
  "yields steps = length (filter is_Yield steps)"


text \<open>The same step with every part after the first removed from its event.\<close>

fun first_part_only :: "'c step \<Rightarrow> 'c step" where
  "first_part_only (Yield (Some e) err) =
     Yield (Some (e\<lparr>Content := map_option (\<lambda>c. c\<lparr>Parts := take 1 (Parts c)\<rparr>) (Content e)\<rparr>)) err"
| "first_part_only s = s"

definition drop_later_parts :: "'c framework \<Rightarrow> 'c framework" where
  "drop_later_parts fw = fw\<lparr>runner_Run := \<lambda>h q. map first_part_only (runner_Run fw h q)\<rparr>"

text \<open>
  Startup succeeds, with API key \<open>key\<close> and session ID \<open>sid\<close>: the \<open>.env\<close> file loads,
  the key is not empty, and no constructor of the framework fails.
\<close>

definition the_model :: "string \<Rightarrow> model" where
  "the_model key = GeminiModel ''gemini-2.5-flash'' key"

definition the_runner :: "string \<Rightarrow> runner" where
  "the_runner key = Runner ''booking_planner'' (coordinator (the_model key))"


text \<open>The three hard-coded prompts, the requests made with them, and the runs they get.\<close>

definition prompts :: "string list" where
  "prompts = [''i want to visit in london?'', ''on 2025-11-14'', ''also book a hotel for me '']"

definition requests :: "string \<Rightarrow> string \<Rightarrow> request list" where
  "requests key sid = map (run_request (the_runner key) sid) prompts"


definition echo :: "string \<Rightarrow> string" where
  "echo prompt = ''\<newline>> '' @ prompt @ ''\<newline>''"

text \<open>
  The world after a sequence of steps that all let the loop go on: their output is on
  standard output and every yielded pair has been pulled.
\<close>

definition advance :: "'c step list \<Rightarrow> world \<Rightarrow> world" where
  "advance steps w =
     w\<lparr>stdout := stdout w @ concat (map step_output steps), pulled := pulled w + yields steps\<rparr>"




text \<open>
  A framework for concrete runs: every constructor succeeds, the session ID is
  \<open>session-1\<close>, and the \<open>n\<close>-th call of \<open>Runner.Run\<close> is answered with the \<open>n\<close>-th
  of the given step sequences.
\<close>

definition scripted :: "(environ \<Rightarrow> error + environ) \<Rightarrow> 'c step list list \<Rightarrow> 'c framework" where
  "scripted load streams =
     \<lparr>godotenv_Load = load,
      gemini_NewModel = (\<lambda>name key. None),
      functiontool_New = (\<lambda>t. None),
      llmagent_New = (\<lambda>a. None),
      runner_New = (\<lambda>r. None),
      session_Create = (\<lambda>app user. Inr ''session-1''),
      runner_Run = (\<lambda>h q. if length h < length streams then streams ! length h else []),
      log_header = ''2025/11/14 10:00:00 ''\<rparr>"

definition text_event :: "string list \<Rightarrow> event" where
  "text_event ts = \<lparr>Content = Some \<lparr>Parts = map (\<lambda>t. Some \<lparr>Text = t\<rparr>) ts, Role = ''model''\<rparr>\<rparr>"



section \<open>The handlers\<close>

text \<open>
  C1. For every location and date, \<open>bookHotel\<close> returns a result whose \<open>Status\<close> is
  "success", whose \<open>ErrorMessage\<close> is empty and whose \<open>Report\<close> is
  "Hotel booked in <location> on <date>. Confirmation: CONF_HOTEL_98765"; the report
  therefore always contains the substring "CONF_HOTEL_98765".
\<close>

theorem bookHotel_success:
  "fst (bookHotel c \<lparr>Location = location, Date = date\<rparr> w) =
     \<lparr>bookHotelResult.Status = ''success'',
      bookHotelResult.Report =
        ''Hotel booked in '' @ location @ '' on '' @ date @ ''. Confirmation: CONF_HOTEL_98765'',
      bookHotelResult.ErrorMessage = ''''\<rparr>
   \<and> sublist ''CONF_HOTEL_98765''
        (bookHotelResult.Report (fst (bookHotel c \<lparr>Location = location, Date = date\<rparr> w)))"
proof -
  let ?pre = "''Hotel booked in '' @ location @ '' on '' @ date @ ''. Confirmation: ''"
  have r: "bookHotelResult.Report (fst (bookHotel c \<lparr>Location = location, Date = date\<rparr> w))
             = ?pre @ ''CONF_HOTEL_98765'' @ []"
    by (simp add: bookHotel_def)
  have "sublist ''CONF_HOTEL_98765'' (?pre @ ''CONF_HOTEL_98765'' @ [])"
    unfolding sublist_def by blast
  with r show ?thesis
    by (simp add: bookHotel_def)
qed

text \<open>
  C2. For every origin, destination and date, \<open>bookFlight\<close> returns a result whose
  \<open>Status\<close> is "success", whose \<open>ErrorMessage\<close> is empty and whose \<open>Report\<close> is
  "Flight booked from <origin> to <destination> on <date>. Confirmation:
  CONF_FLIGHT_12345". The confirmation is a constant and the result has this form
  whatever the arguments are, empty strings included: nothing is validated or retried,
  and the call submits no request and reports no error.
\<close>

theorem bookFlight_success:
  "fst (bookFlight c \<lparr>Origin = origin, Destination = destination, Date = date\<rparr> w) =
     \<lparr>bookFlightResult.Status = ''success'',
      bookFlightResult.Report =
        ''Flight booked from '' @ origin @ '' to '' @ destination @ '' on '' @ date
          @ ''. Confirmation: CONF_FLIGHT_12345'',
      bookFlightResult.ErrorMessage = ''''\<rparr>
   \<and> submitted (snd (bookFlight c arg w)) = submitted w
   \<and> stderr (snd (bookFlight c arg w)) = stderr w
   \<and> pulled (snd (bookFlight c arg w)) = pulled w"
  by (simp add: bookFlight_def fmt_Printf_def)

text \<open>
  C3. The claim is that the handlers have no effect besides returning their result. Both
  begin with \<open>fmt.Printf("%v", arg)\<close>: called with the hotel arguments London and
  2025-11-14, \<open>bookHotel\<close> writes \<open>{London 2025-11-14}\<close> to standard output, and
  \<open>bookFlight\<close> writes its three arguments in the same way, so the world after the call
  is not the world before it.
\<close>

theorem handlers_write_stdout:
  "stdout (snd (bookHotel c \<lparr>Location = ''London'', Date = ''2025-11-14''\<rparr> init_world))
     = ''{London 2025-11-14}''
   \<and> stdout (snd (bookFlight c \<lparr>Origin = ''Paris'', Destination = ''London'',
          Date = ''2025-11-14''\<rparr> init_world)) = ''{Paris London 2025-11-14}''
   \<and> snd (bookHotel c \<lparr>Location = ''London'', Date = ''2025-11-14''\<rparr> init_world) \<noteq> init_world"
  by (simp add: bookHotel_def bookFlight_def fmt_Printf_def fmt_v_bookHotelArg_def
      fmt_v_bookFlightArg_def init_world_def)

text \<open>
  C10. Both handlers are functions of their argument struct alone: the result does not
  depend on the \<open>tool.Context\<close> or on the state of the world in which the call is made,
  so two calls with equal arguments return equal results; and in the same world, calls
  with different contexts return the same result and leave the same world.
\<close>

theorem handlers_deterministic:
  "fst (bookHotel c1 harg w1) = fst (bookHotel c2 harg w2)
   \<and> fst (bookFlight c1 farg w1) = fst (bookFlight c2 farg w2)
   \<and> bookHotel c1 harg w = bookHotel c2 harg w
   \<and> bookFlight c1 farg w = bookFlight c2 farg w"
  by (simp add: bookHotel_def bookFlight_def)

section \<open>The loop of run and the start of runAgent\<close>

lemma advance_Nil: "advance [] w = w"
  by (simp add: advance_def yields_def)

lemma advance_Cons: "advance (s # steps) w = advance steps (advance [s] w)"
  by (simp add: advance_def yields_def)

lemma advance_append: "advance (xs @ ys) w = advance ys (advance xs w)"
  by (simp add: advance_def yields_def)

lemma loop_body_goes_on:
  assumes "goes_on (Yield ev err)"
  shows "loop_body fw ev err w = (Return (), fmt_Printf (step_output (Yield ev err)) w)"
  using assms
  by (auto simp: loop_body_def first_part_def fmt_Printf_def
      split: option.splits list.splits)

lemma range_events_step:
  assumes "goes_on s"
  shows "range_events fw (s # rest) w = range_events fw rest (advance [s] w)"
proof (cases s)
  case (CallHotel c arg)
  then show ?thesis
    by (simp add: bookHotel_def advance_def fmt_Printf_def yields_def)
next
  case (CallFlight c arg)
  then show ?thesis
    by (simp add: bookFlight_def advance_def fmt_Printf_def yields_def)
next
  case (Yield ev err)
  define out where "out = step_output (Yield ev err)"
  define w1 where "w1 = w\<lparr>pulled := pulled w + 1\<rparr>"
  have body: "loop_body fw ev err w1 = (Return (), fmt_Printf out w1)"
    unfolding out_def using assms Yield by (simp only: loop_body_goes_on)
  have world: "fmt_Printf out w1 = advance [s] w"
    unfolding out_def w1_def Yield
    by (rule world.equality) (simp_all add: advance_def fmt_Printf_def yields_def)
  have "range_events fw (s # rest) w = and_then (loop_body fw ev err w1) (\<lambda>_. range_events fw rest)"
    unfolding w1_def Yield by simp
  also have "\<dots> = range_events fw rest (fmt_Printf out w1)"
    unfolding body by (simp add: and_then_def)
  finally show ?thesis
    unfolding world .
qed

lemma range_events_append:
  "list_all goes_on pre \<Longrightarrow> range_events fw (pre @ rest) w = range_events fw rest (advance pre w)"
proof (induction pre arbitrary: w)
  case Nil
  show ?case by (simp add: advance_Nil)
next
  case (Cons s pre)
  then have "range_events fw ((s # pre) @ rest) w = range_events fw (pre @ rest) (advance [s] w)"
    by (simp add: range_events_step)
  also have "\<dots> = range_events fw rest (advance pre (advance [s] w))"
    using Cons by simp
  finally show ?case
    using advance_Cons [of s pre w] by simp
qed


lemma run_unfold:
  "run fw r sid prompt w =
     range_events fw (runner_Run fw (submitted w) (run_request r sid prompt))
       (w\<lparr>stdout := stdout w @ echo prompt, submitted := submitted w @ [run_request r sid prompt]\<rparr>)"
  by (simp add: run_def Let_def fmt_Printf_def echo_def)



section \<open>Parts after the first, and the arguments of the process\<close>

lemma loop_body_first_part_only:
  "first_part_only (Yield ev err) = Yield ev' err' \<Longrightarrow> loop_body fw ev' err' w = loop_body fw ev err w"
  by (cases ev) (auto simp: loop_body_def split: option.splits list.splits)

lemma range_events_first_part_only:
  "range_events fw (map first_part_only steps) w = range_events fw steps w"
proof (induction steps arbitrary: w)
  case Nil
  show ?case by simp
next
  case (Cons s steps)
  have tl: "range_events fw (map first_part_only steps) = range_events fw steps"
    by (rule ext) (rule Cons.IH)
  show ?case
  proof (cases s)
    case (Yield ev err)
    obtain ev' err' where fp': "first_part_only s = Yield ev' err'"
      unfolding Yield by (cases ev) simp_all
    note fp = fp' [unfolded Yield]
    have "range_events fw (map first_part_only (s # steps)) w
        = range_events fw (Yield ev' err' # map first_part_only steps) w"
      unfolding Yield by (simp only: list.map fp)
    also have "\<dots> = and_then (loop_body fw ev' err' (w\<lparr>pulled := pulled w + 1\<rparr>))
        (\<lambda>_. range_events fw steps)"
      by (simp add: tl)
    also have "\<dots> = range_events fw (s # steps) w"
      unfolding Yield loop_body_first_part_only [OF fp] by simp
    finally show ?thesis .
  qed (simp_all add: Cons)
qed

lemma loop_body_header:
  "log_header fw' = log_header fw \<Longrightarrow> loop_body fw' ev err w = loop_body fw ev err w"
  by (simp add: loop_body_def log_Fatal_def split: option.splits)

lemma range_events_header:
  "log_header fw' = log_header fw \<Longrightarrow> range_events fw' steps w = range_events fw steps w"
proof (induction steps arbitrary: w)
  case Nil
  show ?case by simp
next
  case (Cons s steps)
  have tl: "range_events fw' steps = range_events fw steps"
    by (rule ext) (rule Cons.IH [OF Cons.prems])
  show ?case
    by (cases s) (simp_all add: loop_body_header [OF Cons.prems] tl)
qed

lemma run_drop_later_parts:
  "run (drop_later_parts fw) r sid prompt w = run fw r sid prompt w"
proof -
  have h: "log_header (drop_later_parts fw) = log_header fw"
    by (simp add: drop_later_parts_def)
  have "runner_Run (drop_later_parts fw) (submitted w) (run_request r sid prompt)
      = map first_part_only (runner_Run fw (submitted w) (run_request r sid prompt))"
    by (simp add: drop_later_parts_def)
  then show ?thesis
    unfolding run_unfold
    by (simp only: range_events_header [OF h] range_events_first_part_only)
qed

lemma drop_later_parts_fields:
  "godotenv_Load (drop_later_parts fw) = godotenv_Load fw"
  "gemini_NewModel (drop_later_parts fw) = gemini_NewModel fw"
  "functiontool_New (drop_later_parts fw) = functiontool_New fw"
  "llmagent_New (drop_later_parts fw) = llmagent_New fw"
  "runner_New (drop_later_parts fw) = runner_New fw"
  "session_Create (drop_later_parts fw) = session_Create fw"
  "log_header (drop_later_parts fw) = log_header fw"
  by (simp_all add: drop_later_parts_def)

lemma runAgent_drop_later_parts:
  "runAgent (drop_later_parts fw) p w = runAgent fw p w"
  unfolding runAgent_def runAgent_tools_def runAgent_agents_def runAgent_session_def
    log_Fatal_def drop_later_parts_fields run_drop_later_parts ..

lemma main_drop_later_parts: "main (drop_later_parts fw) p = main fw p"
  unfolding main_def runAgent_drop_later_parts ..


section \<open>Startup\<close>

text \<open>
  C4. When the \<open>.env\<close> file fails to load, or when it loads and the variable
  \<open>API_KEY\<close> of the resulting environment is absent or empty, the process fails at
  startup: the whole output of \<open>main\<close> is one line on standard error that begins with
  "Error: ", the exit status is 1, nothing is written to standard output, and no prompt
  is submitted to the runner.
\<close>

theorem startup_failure:
  "(godotenv_Load fw (Environ p) = Inl err \<longrightarrow>
      main fw p = (Exit 1, init_world\<lparr>stderr := ''Error: loading .env file: '' @ err @ ''\<newline>''\<rparr>)
      \<and> submitted (snd (main fw p)) = [])
   \<and> (godotenv_Load fw (Environ p) = Inr env
        \<and> (env ''API_KEY'' = None \<or> env ''API_KEY'' = Some '''') \<longrightarrow>
      main fw p = (Exit 1, init_world\<lparr>stderr := ''Error: API_KEY environment variable is not set\<newline>''\<rparr>)
      \<and> submitted (snd (main fw p)) = [])"
proof -
  have 1: "main fw p = (Exit 1, init_world\<lparr>stderr := ''Error: loading .env file: '' @ err @ ''\<newline>''\<rparr>)"
    if "godotenv_Load fw (Environ p) = Inl err"
    using that by (simp add: main_def runAgent_def fmt_Fprintf_Stderr_def init_world_def)
  have 2: "main fw p = (Exit 1, init_world\<lparr>stderr := ''Error: API_KEY environment variable is not set\<newline>''\<rparr>)"
    if "godotenv_Load fw (Environ p) = Inr env" "env ''API_KEY'' = None \<or> env ''API_KEY'' = Some ''''"
  proof -
    from that(2) have "os_Getenv env ''API_KEY'' = ''''"
      by (auto simp: os_Getenv_def)
    with that(1) show ?thesis
      by (simp add: main_def runAgent_def fmt_Fprintf_Stderr_def init_world_def)
  qed
  from 1 2 show ?thesis
    by (simp add: init_world_def)
qed

text \<open>
  The theorem at three concrete processes: a missing \<open>.env\<close> file, no \<open>API_KEY\<close>
  variable, and an empty \<open>API_KEY\<close> variable.
\<close>

theorem startup_failure_witness:
  "main (scripted (\<lambda>e. Inl ''open .env: no such file or directory'') [] :: unit framework)
       \<lparr>Args = [''sample''], Environ = Map.empty\<rparr>
     = (Exit 1, init_world\<lparr>stderr :=
          ''Error: loading .env file: open .env: no such file or directory\<newline>''\<rparr>)
   \<and> main (scripted Inr [] :: unit framework) \<lparr>Args = [''sample''], Environ = Map.empty\<rparr>
     = (Exit 1, init_world\<lparr>stderr := ''Error: API_KEY environment variable is not set\<newline>''\<rparr>)
   \<and> main (scripted Inr [] :: unit framework)
        \<lparr>Args = [''sample''], Environ = [''API_KEY'' \<mapsto> '''']\<rparr>
     = (Exit 1, init_world\<lparr>stderr := ''Error: API_KEY environment variable is not set\<newline>''\<rparr>)"
proof -
  let ?p = "\<lparr>Args = [''sample''], Environ = Map.empty\<rparr>"
  let ?q = "\<lparr>Args = [''sample''], Environ = [''API_KEY'' \<mapsto> '''']\<rparr>"
  let ?missing = "scripted (\<lambda>e. Inl ''open .env: no such file or directory'') [] :: unit framework"
  let ?loaded = "scripted Inr [] :: unit framework"
  have a: "godotenv_Load ?missing (Environ ?p) = Inl ''open .env: no such file or directory''"
    by (simp add: scripted_def)
  have b: "godotenv_Load ?loaded (Environ ?p) = Inr Map.empty
      \<and> (Map.empty ''API_KEY'' = None \<or> Map.empty ''API_KEY'' = Some '''')"
    by (simp add: scripted_def)
  have c: "godotenv_Load ?loaded (Environ ?q) = Inr [''API_KEY'' \<mapsto> '''']
      \<and> ([''API_KEY'' \<mapsto> ''''] ''API_KEY'' = None \<or> [''API_KEY'' \<mapsto> ''''] ''API_KEY'' = Some '''')"
    by (simp add: scripted_def)
  note startup_failure [of ?missing ?p "''open .env: no such file or directory''",
      THEN conjunct1, THEN mp, OF a, THEN conjunct1]
    startup_failure [of ?loaded ?p _ Map.empty, THEN conjunct2, THEN mp, OF b, THEN conjunct1]
    startup_failure [of ?loaded ?q _ "[''API_KEY'' \<mapsto> '''']", THEN conjunct2, THEN mp, OF c,
      THEN conjunct1]
  then show ?thesis
    by simp
qed

section \<open>The agent graph\<close>



section \<open>A run that is cut short\<close>

lemma run_reaches:
  assumes "runner_Run fw (submitted w) (run_request r sid prompt) = pre @ rest"
    and "list_all goes_on pre"
  shows "run fw r sid prompt w =
     range_events fw rest
       (advance pre (w\<lparr>stdout := stdout w @ echo prompt,
                        submitted := submitted w @ [run_request r sid prompt]\<rparr>))"
  unfolding run_unfold assms(1) by (rule range_events_append [OF assms(2)])


lemma range_events_empty_parts:
  assumes "Content e = Some c" and "Parts c = []"
  shows "range_events fw (Yield (Some e) None # post) w =
     (Panic (IndexOutOfRange 0 0), w\<lparr>pulled := pulled w + 1\<rparr>)"
  using assms by (simp add: loop_body_def and_then_def)

lemma advance_fields:
  "stdout (advance steps w) = stdout w @ concat (map step_output steps)"
  "stderr (advance steps w) = stderr w"
  "submitted (advance steps w) = submitted w"
  "pulled (advance steps w) = pulled w + yields steps"
  by (simp_all add: advance_def)

text \<open>
  C8. \<open>run\<close> reads the first part of each event by indexing \<open>Parts[0]\<close> without a
  check. When the run reaches an event whose content has an empty \<open>Parts\<close> slice,
  \<open>run\<close> panics with an index out of range: the event is not skipped, it is counted
  as pulled, and nothing after it is printed. Text in parts after the first is never
  printed: removing every part after the first from every event of every run leaves the
  result of \<open>run\<close>, and of the whole program, unchanged.
\<close>

theorem empty_parts_panic:
  "(runner_Run fw (submitted w) (run_request r sid prompt) = pre @ Yield (Some e) None # post
      \<and> list_all goes_on pre \<and> Content e = Some c \<and> Parts c = [] \<longrightarrow>
    fst (run fw r sid prompt w) = Panic (IndexOutOfRange 0 0)
    \<and> stdout (snd (run fw r sid prompt w)) = stdout w @ echo prompt @ concat (map step_output pre)
    \<and> pulled (snd (run fw r sid prompt w)) = pulled w + yields pre + 1)
   \<and> run (drop_later_parts fw) r sid prompt w = run fw r sid prompt w
   \<and> main (drop_later_parts fw) p = main fw p"
proof -
  have "run fw r sid prompt w =
      (Panic (IndexOutOfRange 0 0),
       (advance pre (w\<lparr>stdout := stdout w @ echo prompt,
                        submitted := submitted w @ [run_request r sid prompt]\<rparr>))
         \<lparr>pulled := pulled w + yields pre + 1\<rparr>)"
    if "runner_Run fw (submitted w) (run_request r sid prompt) = pre @ Yield (Some e) None # post"
      and "list_all goes_on pre" and "Content e = Some c" and "Parts c = []"
    unfolding run_reaches [OF that(1,2)] range_events_empty_parts [OF that(3,4)]
    by (simp add: advance_fields)
  then show ?thesis
    by (simp add: advance_fields run_drop_later_parts main_drop_later_parts)
qed

text \<open>
  The theorem at a run of three events, the second with an empty \<open>Parts\<close> slice: the
  first is printed, the panic follows, the third is never pulled.
\<close>

theorem empty_parts_panic_witness:
  "fst (run (scripted Inr [[Yield (Some (text_event [''Hi''])) None,
                            Yield (Some (text_event [])) None,
                            Yield (Some (text_event [''never''])) None]] :: unit framework)
          (the_runner ''secret'') ''session-1'' ''hello'' init_world)
     = Panic (IndexOutOfRange 0 0)
   \<and> stdout (snd (run (scripted Inr [[Yield (Some (text_event [''Hi''])) None,
                            Yield (Some (text_event [])) None,
                            Yield (Some (text_event [''never''])) None]] :: unit framework)
          (the_runner ''secret'') ''session-1'' ''hello'' init_world))
     = ''\<newline>> hello\<newline>Agent Response: Hi\<newline>''
   \<and> pulled (snd (run (scripted Inr [[Yield (Some (text_event [''Hi''])) None,
                            Yield (Some (text_event [])) None,
                            Yield (Some (text_event [''never''])) None]] :: unit framework)
          (the_runner ''secret'') ''session-1'' ''hello'' init_world)) = 2"
proof -
  let ?pre = "[Yield (Some (text_event [''Hi''])) None] :: unit step list"
  let ?post = "[Yield (Some (text_event [''never''])) None] :: unit step list"
  let ?fw = "scripted Inr [?pre @ Yield (Some (text_event [])) None # ?post]"
  have h: "runner_Run ?fw (submitted init_world) (run_request (the_runner ''secret'') ''session-1'' ''hello'')
        = ?pre @ Yield (Some (text_event [])) None # ?post
      \<and> list_all goes_on ?pre
      \<and> Content (text_event []) = Some \<lparr>Parts = [], Role = ''model''\<rparr>
      \<and> Parts \<lparr>Parts = [], Role = ''model''\<rparr> = []"
    by (simp add: scripted_def init_world_def text_event_def first_part_def)
  have o: "stdout init_world @ echo ''hello'' @ concat (map step_output ?pre)
        = ''\<newline>> hello\<newline>Agent Response: Hi\<newline>''"
      "pulled init_world + yields ?pre + 1 = 2"
    by (simp_all add: init_world_def echo_def text_event_def first_part_def yields_def)
  from empty_parts_panic [of ?fw init_world "the_runner ''secret''" "''session-1''" "''hello''"
      ?pre "text_event []" ?post "\<lparr>Parts = [], Role = ''model''\<rparr>", THEN conjunct1, THEN mp, OF h]
  show ?thesis
    unfolding o by simp
qed

section \<open>The three runs\<close>












section \<open>Errors of the event sequence\<close>



section \<open>The entry point\<close>




end
